theory Spec2Isabelle
  imports Main "HOL-Library.Sublist"
begin

section \<open>Values of the Python program\<close>

text \<open>
  The server (\<^verbatim>\<open>web_search_mcp.py\<close>) only handles values that come out of
  \<^verbatim>\<open>json.loads\<close> or that it builds itself from literals, so one datatype of
  JSON-shaped Python values covers every variable of the program. \<open>JNull\<close> is Python's
  \<^verbatim>\<open>None\<close>, a dict is an association list read with \<open>map_of\<close>, and a float is
  kept as the text Python prints for it (the program never computes with a number).
\<close>

datatype json =
    JNull
  | JBool bool
  | JInt int
  | JFloat string
  | JStr string
  | JArr "json list"
  | JObj "(string \<times> json) list"

text \<open>
  Exceptions are values: the class that matters to the two \<^verbatim>\<open>except\<close> clauses of
  \<^verbatim>\<open>main\<close> and the text \<^verbatim>\<open>str(e)\<close> gives.
\<close>

datatype exn =
    AttributeError string
  | TypeError string
  | JSONDecodeError string
  | OtherException string

fun str_exn :: "exn \<Rightarrow> string" where
  "str_exn (AttributeError m) = m"
| "str_exn (TypeError m) = m"
| "str_exn (JSONDecodeError m) = m"
| "str_exn (OtherException m) = m"

definition try_bind :: "exn + 'a \<Rightarrow> ('a \<Rightarrow> exn + 'b) \<Rightarrow> exn + 'b" where
  "try_bind m f = (case m of Inl e \<Rightarrow> Inl e | Inr v \<Rightarrow> f v)"

text \<open>The object \<^verbatim>\<open>requests.post\<close> returns: status, body text, and what \<^verbatim>\<open>.json()\<close> does.\<close>

record response =
  status_code :: int
  resp_text :: string
  resp_json :: "exn + json"

text \<open>
  \<^verbatim>\<open>requests.post(url, headers=..., json=...)\<close>: the reply, or the exception raised.
\<close>

type_synonym backend = "string \<Rightarrow> (string \<times> string) list \<Rightarrow> json \<Rightarrow> exn + response"

text \<open>
  What the program takes from the Python runtime and its libraries. The HTTP client is
  indexed by the iteration of the server loop, so successive calls may answer differently
  (an iteration posts at most once). \<open>container_repr\<close> is the text Python prints for a
  list or a dict.
\<close>

record runtime =
  json_loads :: "string \<Rightarrow> exn + json"
  json_dumps :: "json \<Rightarrow> string"
  container_repr :: "json \<Rightarrow> string"
  format_exc :: "exn \<Rightarrow> string"
  requests_post :: "nat \<Rightarrow> backend"

record world =
  stdin :: "string list"
  stdout :: "string list"
  stderr :: "string list"

section \<open>Python primitives\<close>

definition digit_char :: "nat \<Rightarrow> char" where
  "digit_char d = ''0123456789'' ! d"

fun str_nat :: "nat \<Rightarrow> string" where
  "str_nat n = (if n < 10 then [digit_char n] else str_nat (n div 10) @ [digit_char (n mod 10)])"

declare str_nat.simps [simp del]

definition str_int :: "int \<Rightarrow> string" where
  "str_int i = (if i < 0 then CHR ''-'' # str_nat (nat (- i)) else str_nat (nat i))"

fun type_name :: "json \<Rightarrow> string" where
  "type_name JNull = ''NoneType''"
| "type_name (JBool b) = ''bool''"
| "type_name (JInt i) = ''int''"
| "type_name (JFloat r) = ''float''"
| "type_name (JStr s) = ''str''"
| "type_name (JArr xs) = ''list''"
| "type_name (JObj d) = ''dict''"

text \<open>An f-string field \<^verbatim>\<open>{v}\<close>: the string itself, or what \<^verbatim>\<open>str(v)\<close> prints.\<close>

fun py_str :: "runtime \<Rightarrow> json \<Rightarrow> string" where
  "py_str rt JNull = ''None''"
| "py_str rt (JBool b) = (if b then ''True'' else ''False'')"
| "py_str rt (JInt i) = str_int i"
| "py_str rt (JFloat r) = r"
| "py_str rt (JStr s) = s"
| "py_str rt (JArr xs) = container_repr rt (JArr xs)"
| "py_str rt (JObj d) = container_repr rt (JObj d)"

text \<open>Truth value of an object in \<^verbatim>\<open>if response:\<close>.\<close>

fun truthy :: "json \<Rightarrow> bool" where
  "truthy JNull = False"
| "truthy (JBool b) = b"
| "truthy (JInt i) = (i \<noteq> 0)"
| "truthy (JFloat r) = (r \<noteq> ''0.0'' \<and> r \<noteq> ''-0.0'')"
| "truthy (JStr s) = (s \<noteq> [])"
| "truthy (JArr xs) = (xs \<noteq> [])"
| "truthy (JObj d) = (d \<noteq> [])"

definition dict_get :: "(string \<times> json) list \<Rightarrow> string \<Rightarrow> json \<Rightarrow> json" where
  "dict_get d k dflt = (case map_of d k of None \<Rightarrow> dflt | Some v \<Rightarrow> v)"

text \<open>\<^verbatim>\<open>v.get(k, dflt)\<close>: only a dict has the attribute.\<close>

fun py_get :: "json \<Rightarrow> string \<Rightarrow> json \<Rightarrow> exn + json" where
  "py_get (JObj d) k dflt = Inr (dict_get d k dflt)"
| "py_get v k dflt =
     Inl (AttributeError ([CHR 0x27] @ type_name v @ [CHR 0x27] @ '' object has no attribute ''
            @ [CHR 0x27] @ ''get'' @ [CHR 0x27]))"

fun dict_keys :: "(string \<times> json) list \<Rightarrow> string list" where
  "dict_keys [] = []"
| "dict_keys ((k, v) # d) = k # filter (\<lambda>k'. k' \<noteq> k) (dict_keys d)"

text \<open>\<^verbatim>\<open>for block in v\<close>: the items the loop visits, or the TypeError.\<close>

fun py_iter :: "json \<Rightarrow> exn + json list" where
  "py_iter (JArr xs) = Inr xs"
| "py_iter (JObj d) = Inr (map JStr (dict_keys d))"
| "py_iter (JStr s) = Inr (map (\<lambda>c. JStr [c]) s)"
| "py_iter v = Inl (TypeError ([CHR 0x27] @ type_name v @ [CHR 0x27] @ '' object is not iterable''))"

text \<open>\<^verbatim>\<open>text_response += v\<close> on a str accumulator.\<close>

fun str_add :: "string \<Rightarrow> json \<Rightarrow> exn + string" where
  "str_add acc (JStr s) = Inr (acc @ s)"
| "str_add acc v =
     Inl (TypeError (''can only concatenate str (not '' @ [CHR 0x22] @ type_name v @ [CHR 0x22]
            @ '') to str''))"

section \<open>The search adapter\<close>

definition PROXY_URL :: string where
  "PROXY_URL = ''http://localhost:8080/v1/messages''"

definition API_KEY :: string where
  "API_KEY = ''test''"

text \<open>The \<^verbatim>\<open>for block in content_blocks\<close> loop, with \<open>acc\<close> for \<^verbatim>\<open>text_response\<close>.\<close>

fun collect_text :: "json list \<Rightarrow> string \<Rightarrow> exn + string" where
  "collect_text [] acc = Inr acc"
| "collect_text (block # blocks) acc =
     try_bind (py_get block ''type'' JNull) (\<lambda>ty.
       if ty = JStr ''text''
       then try_bind (py_get block ''text'' (JStr [])) (\<lambda>t.
              try_bind (str_add acc t) (\<lambda>acc'. collect_text blocks acc'))
       else collect_text blocks acc)"

text \<open>The two dicts \<^verbatim>\<open>search\<close> builds before its \<^verbatim>\<open>try\<close>.\<close>

definition headers :: "(string \<times> string) list" where
  "headers = [(''x-api-key'', API_KEY), (''Content-Type'', ''application/json'')]"

definition payload :: "json \<Rightarrow> json" where
  "payload query =
     JObj [(''model'', JStr ''web-search''),
           (''messages'', JArr [JObj [(''role'', JStr ''user''), (''content'', query)]]),
           (''max_tokens'', JInt 1024)]"

text \<open>The body of the \<^verbatim>\<open>try\<close> in \<^verbatim>\<open>search\<close>; \<open>Inl\<close> is an exception raised inside it.\<close>

definition search_try :: "backend \<Rightarrow> json \<Rightarrow> exn + string" where
  "search_try post query =
     try_bind (post PROXY_URL headers (payload query)) (\<lambda>r.
       if status_code r \<noteq> 200
       then Inr (''Error: Proxy returned status '' @ str_int (status_code r) @ '' - '' @ resp_text r)
       else try_bind (resp_json r) (\<lambda>data.
              try_bind (py_get data ''content'' (JArr [])) (\<lambda>content_blocks.
                try_bind (py_iter content_blocks) (\<lambda>blocks.
                  try_bind (collect_text blocks []) (\<lambda>text_response.
                    Inr (if text_response \<noteq> [] then text_response else ''No results found.''))))))"

text \<open>\<^verbatim>\<open>search\<close>: the \<^verbatim>\<open>try\<close> with its \<^verbatim>\<open>except Exception as e\<close> handler.\<close>

definition search :: "backend \<Rightarrow> json \<Rightarrow> exn + string" where
  "search post query =
     (case search_try post query of
        Inl e \<Rightarrow> Inr (''Request failed: '' @ str_exn e)
      | Inr s \<Rightarrow> Inr s)"

section \<open>The dispatcher\<close>

definition handle_request :: "runtime \<Rightarrow> nat \<Rightarrow> json \<Rightarrow> exn + json" where
  "handle_request rt k request =
     try_bind (py_get request ''method'' JNull) (\<lambda>method.
     try_bind (py_get request ''params'' (JObj [])) (\<lambda>params.
     try_bind (py_get request ''id'' JNull) (\<lambda>req_id.
       if method = JStr ''initialize'' then
         Inr (JObj [(''jsonrpc'', JStr ''2.0''),
                    (''id'', req_id),
                    (''result'', JObj [
                       (''protocolVersion'', JStr ''2024-11-05''),
                       (''capabilities'', JObj [(''tools'', JObj [])]),
                       (''serverInfo'', JObj [(''name'', JStr ''Antigravity Search''),
                                              (''version'', JStr ''1.0.0'')])])])
       else if method = JStr ''notifications/initialized'' then Inr JNull
       else if method = JStr ''tools/list'' then
         Inr (JObj [(''jsonrpc'', JStr ''2.0''),
                    (''id'', req_id),
                    (''result'', JObj [
                       (''tools'', JArr [JObj [
                          (''name'', JStr ''search''),
                          (''description'',
                             JStr ''Performs a Google Search using the Antigravity Proxy.''),
                          (''inputSchema'', JObj [
                             (''type'', JStr ''object''),
                             (''properties'', JObj [
                                (''query'', JObj [(''type'', JStr ''string''),
                                                  (''description'', JStr ''The search query'')])]),
                             (''required'', JArr [JStr ''query''])])]])])])
       else if method = JStr ''tools/call'' then
         try_bind (py_get params ''name'' JNull) (\<lambda>tool_name.
         try_bind (py_get params ''arguments'' (JObj [])) (\<lambda>args.
           if tool_name = JStr ''search'' then
             try_bind (py_get args ''query'' JNull) (\<lambda>query.
             try_bind (search (requests_post rt k) query) (\<lambda>result.
               Inr (JObj [(''jsonrpc'', JStr ''2.0''),
                          (''id'', req_id),
                          (''result'', JObj [
                             (''content'', JArr [JObj [(''type'', JStr ''text''),
                                                       (''text'', JStr result)]])])])))
           else
             Inr (JObj [(''jsonrpc'', JStr ''2.0''),
                        (''id'', req_id),
                        (''error'', JObj [
                           (''code'', JInt (- 32601)),
                           (''message'', JStr (''Tool not found: '' @ py_str rt tool_name))])])))
       else Inr JNull)))"

section \<open>The server loop\<close>

text \<open>
  \<^verbatim>\<open>sys.stdin.readline()\<close> takes the next pending line, or gives the empty string at
  the end of the stream. Each element of \<open>stdout\<close> and \<open>stderr\<close> is one \<^verbatim>\<open>write\<close>.
  Failures of the streams themselves and of the serialiser are outside the model.
\<close>

definition readline :: "world \<Rightarrow> string \<times> world" where
  "readline w = (case stdin w of [] \<Rightarrow> ([], w) | l # ls \<Rightarrow> (l, w\<lparr>stdin := ls\<rparr>))"

text \<open>The two \<^verbatim>\<open>except\<close> clauses of the loop, in their order.\<close>

fun on_exception :: "runtime \<Rightarrow> string \<Rightarrow> exn \<Rightarrow> world \<Rightarrow> world" where
  "on_exception rt line (JSONDecodeError m) w =
     w\<lparr>stderr := stderr w @ [''Failed to decode JSON: '' @ line @ [CHR 0x0A]]\<rparr>"
| "on_exception rt line e w = w\<lparr>stderr := stderr w @ [format_exc rt e]\<rparr>"

text \<open>One iteration after a non-empty read: lines 128 to 138 of the source.\<close>

definition main_body :: "runtime \<Rightarrow> nat \<Rightarrow> string \<Rightarrow> world \<Rightarrow> world" where
  "main_body rt k line w =
     (case try_bind (json_loads rt line) (handle_request rt k) of
        Inl e \<Rightarrow> on_exception rt line e w
      | Inr response \<Rightarrow>
          if truthy response
          then w\<lparr>stdout := stdout w @ [json_dumps rt response @ [CHR 0x0A]]\<rparr>
          else w)"

function main_loop :: "runtime \<Rightarrow> nat \<Rightarrow> world \<Rightarrow> world" where
  "main_loop rt k w =
     (case readline w of (line, w') \<Rightarrow>
        if line = [] then w'
        else main_loop rt (Suc k) (main_body rt k line w'))"
  by pat_completeness auto
termination
proof (relation "measure (\<lambda>(rt, k, w). length (stdin w))", goal_cases)
  case 1
  show ?case by simp
next
  case (2 rt k w line w')
  have same: "stdin (main_body rt k line w') = stdin w'"
  proof (cases "try_bind (json_loads rt line) (handle_request rt k)")
    case (Inl e)
    then show ?thesis by (cases e) (simp_all add: main_body_def)
  next
    case (Inr r)
    then show ?thesis by (simp add: main_body_def)
  qed
  from 2 have "length (stdin w') < length (stdin w)"
    by (auto simp: readline_def split: list.splits)
  with same show ?case by simp
qed

declare main_loop.simps [simp del]

definition main :: "runtime \<Rightarrow> world \<Rightarrow> world" where
  "main rt w = main_loop rt 0 (w\<lparr>stderr := stderr w @ [''Starting Minimal MCP Server...'' @ [CHR 0x0A]]\<rparr>)"

section \<open>Vocabulary of the properties\<close>

text \<open>\<^verbatim>\<open>isinstance(v, dict)\<close>: the values that have a \<^verbatim>\<open>get\<close> method.\<close>

fun is_dict :: "json \<Rightarrow> bool" where
  "is_dict (JObj d) = True"
| "is_dict v = False"

text \<open>
  The specification's reading of a successful backend body: the blocks whose \<open>type\<close> is
  \<open>text\<close>, the \<open>text\<close> of a block (empty when the block has none), and their
  concatenation in array order. These three follow the specification's words; the source's
  own loop is \<open>collect_text\<close>.
\<close>

definition is_text_block :: "json \<Rightarrow> bool" where
  "is_text_block b = (case b of JObj d \<Rightarrow> map_of d ''type'' = Some (JStr ''text'') | _ \<Rightarrow> False)"

definition block_text :: "json \<Rightarrow> string" where
  "block_text b =
     (case b of JObj d \<Rightarrow> (case map_of d ''text'' of Some (JStr s) \<Rightarrow> s | _ \<Rightarrow> []) | _ \<Rightarrow> [])"

definition concat_text_blocks :: "json list \<Rightarrow> string" where
  "concat_text_blocks blocks = concat (map block_text (filter is_text_block blocks))"

text \<open>
  A block of the expected shape \<^verbatim>\<open>{type: ..., text: string}\<close>: an object, and when its
  type is \<open>text\<close> its \<open>text\<close> field is a string or is missing.
\<close>

definition block_shaped :: "json \<Rightarrow> bool" where
  "block_shaped b =
     (case b of
        JObj d \<Rightarrow>
          (if map_of d ''type'' = Some (JStr ''text'')
           then (case map_of d ''text'' of None \<Rightarrow> True | Some (JStr s) \<Rightarrow> True | Some _ \<Rightarrow> False)
           else True)
      | _ \<Rightarrow> False)"

text \<open>
  The messages the dispatcher answers, read off the method alone: \<open>initialize\<close>,
  \<open>tools/list\<close>, and \<open>tools/call\<close> when \<open>params\<close> is an object (and, for the tool
  \<open>search\<close>, \<open>arguments\<close> is an object too). Absent \<open>params\<close> and \<open>arguments\<close> count as
  empty objects. The \<open>id\<close> plays no part.
\<close>

definition gets_response :: "(string \<times> json) list \<Rightarrow> bool" where
  "gets_response d =
     (let method = dict_get d ''method'' JNull; params = dict_get d ''params'' (JObj []) in
        method = JStr ''initialize'' \<or> method = JStr ''tools/list'' \<or>
        (method = JStr ''tools/call'' \<and>
         (case params of
            JObj p \<Rightarrow>
              (if dict_get p ''name'' JNull = JStr ''search''
               then is_dict (dict_get p ''arguments'' (JObj []))
               else True)
          | _ \<Rightarrow> False)))"

text \<open>A request in the specification's sense: a message that carries an \<open>id\<close>.\<close>

definition has_id :: "json \<Rightarrow> bool" where
  "has_id v = (case v of JObj d \<Rightarrow> map_of d ''id'' \<noteq> None | _ \<Rightarrow> False)"

text \<open>A field of the envelope the dispatcher returned, if it returned one.\<close>

definition response_field :: "string \<Rightarrow> exn + json \<Rightarrow> json option" where
  "response_field key outcome = (case outcome of Inr (JObj r) \<Rightarrow> map_of r key | _ \<Rightarrow> None)"

text \<open>
  Reading a decimal numeral back: the value of a digit string, and of an optionally signed
  one. They are the yardstick for how the program prints an integer, independent of
  \<open>str_int\<close>.
\<close>

definition digit_value :: "char \<Rightarrow> nat" where
  "digit_value c = of_char c - 48"

definition decimal_value :: "string \<Rightarrow> nat" where
  "decimal_value s = foldl (\<lambda>acc c. 10 * acc + digit_value c) 0 s"

definition int_of_decimal :: "string \<Rightarrow> int" where
  "int_of_decimal s =
     (case s of
        [] \<Rightarrow> 0
      | c # cs \<Rightarrow> if c = CHR ''-'' then - int (decimal_value cs) else int (decimal_value s))"

text \<open>
  The specification's account of the loop: the lines are handled one after the other,
  each to completion, the \<open>k\<close>-th by the \<open>k\<close>-th iteration. The source's own loop is
  \<open>main_loop\<close>.
\<close>

primrec process_lines :: "runtime \<Rightarrow> nat \<Rightarrow> string list \<Rightarrow> world \<Rightarrow> world" where
  "process_lines rt k [] w = w"
| "process_lines rt k (l # ls) w = process_lines rt (Suc k) ls (main_body rt k l w)"

section \<open>A concrete runtime for the examples\<close>

text \<open>
  A backend that answers the iterations of the loop in turn: a well-formed 200, a 500,
  a refused connection, a 200 whose body is not JSON, at the sixth a 404, and otherwise a
  200 whose body is a JSON array.
\<close>

definition demo_post :: "nat \<Rightarrow> backend" where
  \<open>demo_post k url hs body =
     (if k = 0 then
        Inr \<lparr>status_code = 200,
             resp_text = ''{"content": [{"type": "text", "text": "hello"}, {"type": "image"}, {"type": "text", "text": " world"}]}'',
             resp_json = Inr (JObj [(''content'', JArr [
                JObj [(''type'', JStr ''text''), (''text'', JStr ''hello'')],
                JObj [(''type'', JStr ''image'')],
                JObj [(''type'', JStr ''text''), (''text'', JStr '' world'')]])])\<rparr>
      else if k = 1 then
        Inr \<lparr>status_code = 500, resp_text = ''Internal Server Error'',
             resp_json = Inl (JSONDecodeError ''Expecting value: line 1 column 1 (char 0)'')\<rparr>
      else if k = 2 then Inl (OtherException ''Connection refused'')
      else if k = 3 then
        Inr \<lparr>status_code = 200, resp_text = ''<html>'',
             resp_json = Inl (JSONDecodeError ''Expecting value: line 1 column 1 (char 0)'')\<rparr>
      else if k = 6 then
        Inr \<lparr>status_code = 404, resp_text = ''Not Found'',
             resp_json = Inl (JSONDecodeError ''Expecting value: line 1 column 1 (char 0)'')\<rparr>
      else Inr \<lparr>status_code = 200, resp_text = ''[]'', resp_json = Inr (JArr [])\<rparr>)\<close>

text \<open>
  A decoder that knows four lines, a serialiser that writes JSON text in the layout of
  \<^verbatim>\<open>json.dumps\<close> (strings as they are, which is right for text that needs no escape),
  and the runtime made of them.
\<close>

definition demo_loads :: "string \<Rightarrow> exn + json" where
  \<open>demo_loads s =
     (if s = ''{"jsonrpc": "2.0", "id": 1, "method": "ping"}'' @ [CHR 0x0A] then
        Inr (JObj [(''jsonrpc'', JStr ''2.0''), (''id'', JInt 1), (''method'', JStr ''ping'')])
      else if s = ''{"jsonrpc": "2.0", "method": "initialize"}'' @ [CHR 0x0A] then
        Inr (JObj [(''jsonrpc'', JStr ''2.0''), (''method'', JStr ''initialize'')])
      else if s = ''{"jsonrpc": "2.0", "id": 2, "method": "tools/list"}'' @ [CHR 0x0A] then
        Inr (JObj [(''jsonrpc'', JStr ''2.0''), (''id'', JInt 2), (''method'', JStr ''tools/list'')])
      else if s = ''[1, 2]'' @ [CHR 0x0A] then Inr (JArr [JInt 1, JInt 2])
      else Inl (JSONDecodeError ''Expecting value: line 1 column 1 (char 0)''))\<close>

fun demo_dumps :: "json \<Rightarrow> string"
  and dumps_items :: "json list \<Rightarrow> string"
  and dumps_members :: "(string \<times> json) list \<Rightarrow> string" where
  "demo_dumps JNull = ''null''"
| "demo_dumps (JBool b) = (if b then ''true'' else ''false'')"
| "demo_dumps (JInt i) = str_int i"
| "demo_dumps (JFloat r) = r"
| "demo_dumps (JStr s) = [CHR 0x22] @ s @ [CHR 0x22]"
| "demo_dumps (JArr xs) = ''['' @ dumps_items xs @ '']''"
| "demo_dumps (JObj d) = ''{'' @ dumps_members d @ ''}''"
| "dumps_items [] = []"
| "dumps_items [x] = demo_dumps x"
| "dumps_items (x # y # xs) = demo_dumps x @ '', '' @ dumps_items (y # xs)"
| "dumps_members [] = []"
| "dumps_members [(k, v)] = [CHR 0x22] @ k @ [CHR 0x22] @ '': '' @ demo_dumps v"
| "dumps_members ((k, v) # m # d) =
     [CHR 0x22] @ k @ [CHR 0x22] @ '': '' @ demo_dumps v @ '', '' @ dumps_members (m # d)"

definition demo_rt :: runtime where
  "demo_rt =
     \<lparr>json_loads = demo_loads,
      json_dumps = demo_dumps,
      container_repr = (\<lambda>v. ''<'' @ type_name v @ ''>''),
      format_exc = (\<lambda>e. ''Traceback (most recent call last): '' @ str_exn e),
      requests_post = demo_post\<rparr>"

definition empty_world :: world where
  "empty_world = \<lparr>stdin = [], stdout = [], stderr = []\<rparr>"

section \<open>Basic facts\<close>

lemma try_bind_Inl [simp]: "try_bind (Inl e) f = Inl e"
  by (simp add: try_bind_def)

lemma try_bind_Inr [simp]: "try_bind (Inr v) f = f v"
  by (simp add: try_bind_def)

lemma py_get_not_dict:
  "\<not> is_dict v \<Longrightarrow>
   py_get v key dflt =
     Inl (AttributeError ([CHR 0x27] @ type_name v @ [CHR 0x27] @ '' object has no attribute ''
            @ [CHR 0x27] @ ''get'' @ [CHR 0x27]))"
  by (cases v) simp_all

lemma str_int_500: "str_int 500 = ''500''"
  by (simp add: str_int_def str_nat.simps digit_char_def)

lemma digit_char_cases:
  "d < 10 \<Longrightarrow> digit_value (digit_char d) = d \<and> digit_char d \<in> set ''0123456789'' \<and>
     digit_char d \<noteq> CHR ''-'' \<and> (0 < d \<longrightarrow> digit_char d \<noteq> CHR ''0'')"
proof -
  assume "d < 10"
  then have "d = 0 \<or> d = 1 \<or> d = 2 \<or> d = 3 \<or> d = 4 \<or> d = 5 \<or> d = 6 \<or> d = 7 \<or> d = 8 \<or> d = 9"
    by arith
  then show ?thesis
    by (elim disjE) (simp_all add: digit_char_def digit_value_def)
qed

lemma decimal_value_snoc: "decimal_value (s @ [c]) = 10 * decimal_value s + digit_value c"
  by (simp add: decimal_value_def)

lemma str_nat_roundtrip: "decimal_value (str_nat n) = n"
proof (induction n rule: str_nat.induct)
  case (1 n)
  show ?case
  proof (cases "n < 10")
    case True
    then show ?thesis
      by (subst str_nat.simps) (simp add: decimal_value_def digit_char_cases)
  next
    case False
    then have "decimal_value (str_nat n) =
        10 * decimal_value (str_nat (n div 10)) + digit_value (digit_char (n mod 10))"
      by (subst str_nat.simps) (simp add: decimal_value_snoc)
    with False "1.IH" show ?thesis by (simp add: digit_char_cases)
  qed
qed

lemma str_nat_digits: "str_nat n \<noteq> [] \<and> set (str_nat n) \<subseteq> set ''0123456789''"
proof (induction n rule: str_nat.induct)
  case (1 n)
  show ?case
  proof (cases "n < 10")
    case True
    then show ?thesis
      using digit_char_cases [of n] by (subst (1 2) str_nat.simps) simp
  next
    case False
    with "1.IH" show ?thesis
      using digit_char_cases [of "n mod 10"] by (subst (1 2) str_nat.simps) simp
  qed
qed

lemma str_nat_no_leading_zero: "0 < n \<Longrightarrow> hd (str_nat n) \<noteq> CHR ''0''"
proof (induction n rule: str_nat.induct)
  case (1 n)
  show ?case
  proof (cases "n < 10")
    case True
    with "1.prems" show ?thesis
      using digit_char_cases [of n] by (subst str_nat.simps) simp
  next
    case False
    then have "0 < n div 10" by simp
    with False "1.IH" have "hd (str_nat (n div 10)) \<noteq> CHR ''0''" by simp
    with False show ?thesis
      using str_nat_digits [of "n div 10"] by (subst str_nat.simps) simp
  qed
qed

lemma str_int_roundtrip: "int_of_decimal (str_int i) = i"
proof (cases "i < 0")
  case True
  then show ?thesis
    by (simp add: str_int_def int_of_decimal_def str_nat_roundtrip)
next
  case False
  obtain c cs where cs: "str_nat (nat i) = c # cs"
    using str_nat_digits [of "nat i"] by (cases "str_nat (nat i)") auto
  with str_nat_digits [of "nat i"] have "c \<in> set ''0123456789''" by auto
  then have "c \<noteq> CHR ''-''" by auto
  with False cs str_nat_roundtrip [of "nat i"] show ?thesis
    by (simp add: str_int_def int_of_decimal_def)
qed

lemma str_int_digits:
  "0 \<le> i \<Longrightarrow> set (str_int i) \<subseteq> set ''0123456789'' \<and> (0 < i \<longrightarrow> hd (str_int i) \<noteq> CHR ''0'')"
  using str_nat_digits [of "nat i"] str_nat_no_leading_zero [of "nat i"]
  by (simp add: str_int_def)

lemma str_int_404: "str_int 404 = ''404''"
  by (simp add: str_int_def str_nat.simps digit_char_def)

lemma str_int_2: "str_int 2 = ''2''"
  by (simp add: str_int_def str_nat.simps digit_char_def)

section \<open>The search adapter: properties\<close>

lemma collect_text_shaped:
  "\<forall>b \<in> set blocks. block_shaped b \<Longrightarrow>
   collect_text blocks acc = Inr (acc @ concat_text_blocks blocks)"
proof (induction blocks arbitrary: acc)
  case Nil
  show ?case by (simp add: concat_text_blocks_def)
next
  case (Cons b bs)
  from Cons.prems have b: "block_shaped b" and bs: "\<forall>b \<in> set bs. block_shaped b"
    by simp_all
  from b obtain d where d: "b = JObj d"
    by (cases b) (simp_all add: block_shaped_def)
  note IH = Cons.IH [OF bs]
  show ?case
  proof (cases "map_of d ''type'' = Some (JStr ''text'')")
    case True
    with b d have "map_of d ''text'' = None \<or> (\<exists>s. map_of d ''text'' = Some (JStr s))"
      by (auto simp: block_shaped_def split: option.splits json.splits)
    then show ?thesis
      using True d IH
      by (auto simp: dict_get_def concat_text_blocks_def is_text_block_def block_text_def)
  next
    case False
    then have "dict_get d ''type'' JNull \<noteq> JStr ''text''"
      by (auto simp: dict_get_def split: option.splits)
    with False d IH show ?thesis
      by (simp add: concat_text_blocks_def is_text_block_def)
  qed
qed

text \<open>
  Claim C4. \<^verbatim>\<open>search\<close> is total at its boundary: whatever the query and whatever the
  backend does, it returns a string and raises nothing. A network exception gives
  \<open>Request failed: \<close> followed by the exception's text, a status other than 200 gives
  \<open>Error: Proxy returned status \<close> with the status and the body, and a 200 whose body does
  not parse, or parses to something that is not an object, gives \<open>Request failed: \<close> again.
\<close>

theorem search_never_raises:
  "(\<exists>s. search post query = Inr s) \<and>
   (\<forall>e. post PROXY_URL headers (payload query) = Inl e \<longrightarrow>
      search post query = Inr (''Request failed: '' @ str_exn e)) \<and>
   (\<forall>r. post PROXY_URL headers (payload query) = Inr r \<and> status_code r \<noteq> 200 \<longrightarrow>
      search post query =
        Inr (''Error: Proxy returned status '' @ str_int (status_code r) @ '' - '' @ resp_text r)) \<and>
   (\<forall>r e. post PROXY_URL headers (payload query) = Inr r \<and> status_code r = 200
        \<and> resp_json r = Inl e \<longrightarrow>
      search post query = Inr (''Request failed: '' @ str_exn e)) \<and>
   (\<forall>r data. post PROXY_URL headers (payload query) = Inr r \<and> status_code r = 200
        \<and> resp_json r = Inr data \<and> \<not> is_dict data \<longrightarrow>
      search post query =
        Inr (''Request failed: '' @ [CHR 0x27] @ type_name data @ [CHR 0x27]
               @ '' object has no attribute '' @ [CHR 0x27] @ ''get'' @ [CHR 0x27]))"
proof (intro conjI allI impI)
  show "\<exists>s. search post query = Inr s"
    by (cases "search_try post query") (simp_all add: search_def)
next
  fix e assume "post PROXY_URL headers (payload query) = Inl e"
  then show "search post query = Inr (''Request failed: '' @ str_exn e)"
    by (simp add: search_def search_try_def)
next
  fix r assume "post PROXY_URL headers (payload query) = Inr r \<and> status_code r \<noteq> 200"
  then show "search post query =
      Inr (''Error: Proxy returned status '' @ str_int (status_code r) @ '' - '' @ resp_text r)"
    by (simp add: search_def search_try_def)
next
  fix r e
  assume "post PROXY_URL headers (payload query) = Inr r \<and> status_code r = 200
      \<and> resp_json r = Inl e"
  then show "search post query = Inr (''Request failed: '' @ str_exn e)"
    by (simp add: search_def search_try_def)
next
  fix r data
  assume "post PROXY_URL headers (payload query) = Inr r \<and> status_code r = 200
      \<and> resp_json r = Inr data \<and> \<not> is_dict data"
  then show "search post query =
      Inr (''Request failed: '' @ [CHR 0x27] @ type_name data @ [CHR 0x27]
             @ '' object has no attribute '' @ [CHR 0x27] @ ''get'' @ [CHR 0x27])"
    by (simp add: search_def search_try_def py_get_not_dict)
qed

theorem search_never_raises_witness:
  "search (demo_post 2) (JStr ''isabelle'') = Inr ''Request failed: Connection refused'' \<and>
   search (demo_post 1) (JStr ''isabelle'') =
     Inr ''Error: Proxy returned status 500 - Internal Server Error'' \<and>
   search (demo_post 3) (JStr ''isabelle'') =
     Inr ''Request failed: Expecting value: line 1 column 1 (char 0)'' \<and>
   search (demo_post 4) (JStr ''isabelle'') =
     Inr (''Request failed: '' @ [CHR 0x27] @ ''list'' @ [CHR 0x27]
            @ '' object has no attribute '' @ [CHR 0x27] @ ''get'' @ [CHR 0x27])"
  using search_never_raises [of "demo_post 2" "JStr ''isabelle''"]
    search_never_raises [of "demo_post 1" "JStr ''isabelle''"]
    search_never_raises [of "demo_post 3" "JStr ''isabelle''"]
    search_never_raises [of "demo_post 4" "JStr ''isabelle''"]
  by (simp add: demo_post_def str_int_500)

text \<open>
  Claim C5. When the backend replies with HTTP 200 and a body of the expected shape (an
  object whose \<open>content\<close>, an array when present, holds blocks), \<^verbatim>\<open>search\<close> returns the
  concatenation, in array order, of the \<open>text\<close> of every block whose \<open>type\<close> is \<open>text\<close>,
  and exactly \<open>No results found.\<close> when that concatenation is empty.
\<close>

theorem search_ok_concatenates:
  assumes "post PROXY_URL headers (payload query) = Inr r"
    and "status_code r = 200"
    and "resp_json r = Inr (JObj d)"
    and "dict_get d ''content'' (JArr []) = JArr blocks"
    and "\<forall>b \<in> set blocks. block_shaped b"
  shows "search post query =
           Inr (if concat_text_blocks blocks = [] then ''No results found.''
                else concat_text_blocks blocks)"
  using assms collect_text_shaped [of blocks "[]"]
  by (simp add: search_def search_try_def)

theorem search_ok_concatenates_witness:
  "search (demo_post 0) (JStr ''isabelle'') = Inr ''hello world''"
  using search_ok_concatenates [of "demo_post 0" "JStr ''isabelle''" _
      "[(''content'', JArr [
          JObj [(''type'', JStr ''text''), (''text'', JStr ''hello'')],
          JObj [(''type'', JStr ''image'')],
          JObj [(''type'', JStr ''text''), (''text'', JStr '' world'')]])]"
      "[JObj [(''type'', JStr ''text''), (''text'', JStr ''hello'')],
        JObj [(''type'', JStr ''image'')],
        JObj [(''type'', JStr ''text''), (''text'', JStr '' world'')]]"]
  by (simp add: demo_post_def dict_get_def block_shaped_def concat_text_blocks_def
      is_text_block_def block_text_def)

section \<open>The dispatcher and the loop: properties\<close>

lemma search_returns: "\<exists>s. search post query = Inr s"
  by (cases "search_try post query") (simp_all add: search_def)

lemma stdout_on_exception [simp]: "stdout (on_exception rt line e w) = stdout w"
  by (cases e) simp_all

lemma handle_request_not_dict:
  "\<not> is_dict v \<Longrightarrow>
   handle_request rt k v =
     Inl (AttributeError ([CHR 0x27] @ type_name v @ [CHR 0x27] @ '' object has no attribute ''
            @ [CHR 0x27] @ ''get'' @ [CHR 0x27]))"
  by (simp add: handle_request_def py_get_not_dict)

lemma handle_request_initialize:
  "dict_get d ''method'' JNull = JStr ''initialize'' \<Longrightarrow>
   handle_request rt k (JObj d) =
     Inr (JObj [(''jsonrpc'', JStr ''2.0''),
                (''id'', dict_get d ''id'' JNull),
                (''result'', JObj [
                   (''protocolVersion'', JStr ''2024-11-05''),
                   (''capabilities'', JObj [(''tools'', JObj [])]),
                   (''serverInfo'', JObj [(''name'', JStr ''Antigravity Search''),
                                          (''version'', JStr ''1.0.0'')])])])"
  by (simp add: handle_request_def)

lemma handle_request_tools_list:
  "dict_get d ''method'' JNull = JStr ''tools/list'' \<Longrightarrow>
   handle_request rt k (JObj d) =
     Inr (JObj [(''jsonrpc'', JStr ''2.0''),
                (''id'', dict_get d ''id'' JNull),
                (''result'', JObj [
                   (''tools'', JArr [JObj [
                      (''name'', JStr ''search''),
                      (''description'',
                         JStr ''Performs a Google Search using the Antigravity Proxy.''),
                      (''inputSchema'', JObj [
                         (''type'', JStr ''object''),
                         (''properties'', JObj [
                            (''query'', JObj [(''type'', JStr ''string''),
                                              (''description'', JStr ''The search query'')])]),
                         (''required'', JArr [JStr ''query''])])]])])])"
  by (simp add: handle_request_def)

lemma handle_request_silent:
  "dict_get d ''method'' JNull \<noteq> JStr ''initialize'' \<Longrightarrow>
   dict_get d ''method'' JNull \<noteq> JStr ''tools/list'' \<Longrightarrow>
   dict_get d ''method'' JNull \<noteq> JStr ''tools/call'' \<Longrightarrow>
   handle_request rt k (JObj d) = Inr JNull"
  by (simp add: handle_request_def)

lemma handle_request_call_bad_params:
  "dict_get d ''method'' JNull = JStr ''tools/call'' \<Longrightarrow>
   \<not> is_dict (dict_get d ''params'' (JObj [])) \<Longrightarrow>
   \<exists>e. handle_request rt k (JObj d) = Inl e"
  by (simp add: handle_request_def py_get_not_dict)

lemma handle_request_unknown_tool:
  "dict_get d ''method'' JNull = JStr ''tools/call'' \<Longrightarrow>
   dict_get d ''params'' (JObj []) = JObj p \<Longrightarrow>
   dict_get p ''name'' JNull \<noteq> JStr ''search'' \<Longrightarrow>
   handle_request rt k (JObj d) =
     Inr (JObj [(''jsonrpc'', JStr ''2.0''),
                (''id'', dict_get d ''id'' JNull),
                (''error'', JObj [
                   (''code'', JInt (- 32601)),
                   (''message'',
                      JStr (''Tool not found: '' @ py_str rt (dict_get p ''name'' JNull)))])])"
  by (simp add: handle_request_def)

lemma handle_request_search:
  "dict_get d ''method'' JNull = JStr ''tools/call'' \<Longrightarrow>
   dict_get d ''params'' (JObj []) = JObj p \<Longrightarrow>
   dict_get p ''name'' JNull = JStr ''search'' \<Longrightarrow>
   dict_get p ''arguments'' (JObj []) = JObj a \<Longrightarrow>
   search (requests_post rt k) (dict_get a ''query'' JNull) = Inr s \<Longrightarrow>
   handle_request rt k (JObj d) =
     Inr (JObj [(''jsonrpc'', JStr ''2.0''),
                (''id'', dict_get d ''id'' JNull),
                (''result'', JObj [
                   (''content'', JArr [JObj [(''type'', JStr ''text''), (''text'', JStr s)]])])])"
  by (simp add: handle_request_def)

lemma handle_request_search_bad_args:
  "dict_get d ''method'' JNull = JStr ''tools/call'' \<Longrightarrow>
   dict_get d ''params'' (JObj []) = JObj p \<Longrightarrow>
   dict_get p ''name'' JNull = JStr ''search'' \<Longrightarrow>
   \<not> is_dict (dict_get p ''arguments'' (JObj [])) \<Longrightarrow>
   \<exists>e. handle_request rt k (JObj d) = Inl e"
  by (simp add: handle_request_def py_get_not_dict)

lemma main_body_response:
  "json_loads rt line = Inr request \<Longrightarrow> handle_request rt k request = Inr (JObj (x # r)) \<Longrightarrow>
   main_body rt k line w = w\<lparr>stdout := stdout w @ [json_dumps rt (JObj (x # r)) @ [CHR 0x0A]]\<rparr>"
  by (simp add: main_body_def)

lemma main_body_none:
  "json_loads rt line = Inr request \<Longrightarrow> handle_request rt k request = Inr JNull \<Longrightarrow>
   main_body rt k line w = w"
  by (simp add: main_body_def)

lemma main_body_raise:
  "json_loads rt line = Inr request \<Longrightarrow> handle_request rt k request = Inl e \<Longrightarrow>
   main_body rt k line w = on_exception rt line e w"
  by (simp add: main_body_def)

lemma stdin_update_main_body:
  "main_body rt k line (w\<lparr>stdin := x\<rparr>) = (main_body rt k line w)\<lparr>stdin := x\<rparr>"
proof (cases "try_bind (json_loads rt line) (handle_request rt k)")
  case (Inl e)
  then show ?thesis by (cases e) (simp_all add: main_body_def)
next
  case (Inr r)
  then show ?thesis by (simp add: main_body_def)
qed

lemma main_loop_eof: "main_loop rt k (w\<lparr>stdin := []\<rparr>) = w\<lparr>stdin := []\<rparr>"
  by (subst main_loop.simps) (simp add: readline_def)

lemma world_update_swap: "w\<lparr>stderr := e, stdin := s\<rparr> = w\<lparr>stdin := s, stderr := e\<rparr>"
  by simp

lemma main_loop_line:
  "line \<noteq> [] \<Longrightarrow>
   main_loop rt k (w\<lparr>stdin := line # rest\<rparr>) =
     main_loop rt (Suc k) (main_body rt k line (w\<lparr>stdin := rest\<rparr>))"
  by (subst main_loop.simps) (simp add: readline_def)

lemma main_loop_process_lines:
  "\<forall>l \<in> set ls. l \<noteq> [] \<Longrightarrow>
   main_loop rt k (w\<lparr>stdin := ls\<rparr>) = process_lines rt k ls (w\<lparr>stdin := []\<rparr>)"
proof (induction ls arbitrary: k w)
  case Nil
  show ?case by (simp add: main_loop_eof)
next
  case (Cons l ls)
  then have "l \<noteq> []" and rest: "\<forall>l \<in> set ls. l \<noteq> []" by simp_all
  then have "main_loop rt k (w\<lparr>stdin := l # ls\<rparr>) =
      main_loop rt (Suc k) ((main_body rt k l w)\<lparr>stdin := ls\<rparr>)"
    by (simp add: main_loop_line stdin_update_main_body)
  also have "\<dots> = process_lines rt (Suc k) ls ((main_body rt k l w)\<lparr>stdin := []\<rparr>)"
    by (rule Cons.IH [OF rest])
  finally show ?case by (simp add: stdin_update_main_body)
qed

text \<open>
  Claim C1, as stated, fails in both directions. A request with an \<open>id\<close> and the unknown
  method \<open>ping\<close> writes nothing to the output stream, and an \<open>initialize\<close> message
  without an \<open>id\<close> (a notification) writes one Response line.
\<close>

theorem response_iff_id_counterexample:
  \<open>json_loads demo_rt (''{"jsonrpc": "2.0", "id": 1, "method": "ping"}'' @ [CHR 0x0A]) =
     Inr (JObj [(''jsonrpc'', JStr ''2.0''), (''id'', JInt 1), (''method'', JStr ''ping'')]) \<and>
   has_id (JObj [(''jsonrpc'', JStr ''2.0''), (''id'', JInt 1), (''method'', JStr ''ping'')]) \<and>
   stdout (main_body demo_rt 0 (''{"jsonrpc": "2.0", "id": 1, "method": "ping"}'' @ [CHR 0x0A]) empty_world) = [] \<and>
   json_loads demo_rt (''{"jsonrpc": "2.0", "method": "initialize"}'' @ [CHR 0x0A]) =
     Inr (JObj [(''jsonrpc'', JStr ''2.0''), (''method'', JStr ''initialize'')]) \<and>
   \<not> has_id (JObj [(''jsonrpc'', JStr ''2.0''), (''method'', JStr ''initialize'')]) \<and>
   length (stdout (main_body demo_rt 1 (''{"jsonrpc": "2.0", "method": "initialize"}'' @ [CHR 0x0A]) empty_world)) = 1\<close>
  by (simp add: demo_rt_def demo_loads_def has_id_def main_body_def handle_request_def
      dict_get_def empty_world_def)

text \<open>
  Claim C1, amended. For every decoded message that is a JSON object, at most one Response
  line is written, and whether it is written depends on the method, not on the presence
  of an \<open>id\<close>: exactly one line, whose \<open>id\<close> echoes the message's (null when absent), for
  \<open>initialize\<close>, \<open>tools/list\<close> and \<open>tools/call\<close> with an object for \<open>params\<close> (and for
  \<open>arguments\<close> when the tool is \<open>search\<close>); no line for any other message.
\<close>

theorem response_iff_method:
  assumes loads: "json_loads rt line = Inr (JObj d)"
  shows "(gets_response d \<longrightarrow>
            (\<exists>r. handle_request rt k (JObj d) = Inr (JObj r) \<and>
                 map_of r ''id'' = Some (dict_get d ''id'' JNull) \<and>
                 stdout (main_body rt k line w) =
                   stdout w @ [json_dumps rt (JObj r) @ [CHR 0x0A]])) \<and>
         (\<not> gets_response d \<longrightarrow> stdout (main_body rt k line w) = stdout w)"
proof (intro conjI impI)
  assume g: "gets_response d"
  let ?goal = "\<exists>r. handle_request rt k (JObj d) = Inr (JObj r) \<and>
                 map_of r ''id'' = Some (dict_get d ''id'' JNull) \<and>
                 stdout (main_body rt k line w) =
                   stdout w @ [json_dumps rt (JObj r) @ [CHR 0x0A]]"
  from g consider
      (init) "dict_get d ''method'' JNull = JStr ''initialize''"
    | (list) "dict_get d ''method'' JNull = JStr ''tools/list''"
    | (unknown) p where "dict_get d ''method'' JNull = JStr ''tools/call''"
        "dict_get d ''params'' (JObj []) = JObj p" "dict_get p ''name'' JNull \<noteq> JStr ''search''"
    | (search) p a where "dict_get d ''method'' JNull = JStr ''tools/call''"
        "dict_get d ''params'' (JObj []) = JObj p" "dict_get p ''name'' JNull = JStr ''search''"
        "dict_get p ''arguments'' (JObj []) = JObj a"
    unfolding gets_response_def Let_def
    by (cases "dict_get d ''params'' (JObj [])")
       (auto split: if_splits elim: is_dict.elims)
  then show ?goal
  proof cases
    case init
    from handle_request_initialize [OF init, of rt k] loads show ?thesis
      by (simp add: main_body_response)
  next
    case list
    from handle_request_tools_list [OF list, of rt k] loads show ?thesis
      by (simp add: main_body_response)
  next
    case unknown
    from handle_request_unknown_tool [OF unknown, of rt k] loads show ?thesis
      by (simp add: main_body_response)
  next
    case search
    obtain s where s: "search (requests_post rt k) (dict_get a ''query'' JNull) = Inr s"
      using search_returns by blast
    from handle_request_search [OF search s] loads show ?thesis
      by (simp add: main_body_response)
  qed
next
  assume ng: "\<not> gets_response d"
  show "stdout (main_body rt k line w) = stdout w"
  proof (cases "dict_get d ''method'' JNull = JStr ''tools/call''")
    case False
    with ng have "handle_request rt k (JObj d) = Inr JNull"
      by (intro handle_request_silent) (auto simp: gets_response_def Let_def)
    with loads show ?thesis by (simp add: main_body_none)
  next
    case True
    show ?thesis
    proof (cases "is_dict (dict_get d ''params'' (JObj []))")
      case False
      from handle_request_call_bad_params [OF True False]
      obtain e where "handle_request rt k (JObj d) = Inl e" by blast
      with loads show ?thesis by (simp add: main_body_raise)
    next
      case pd: True
      then obtain p where p: "dict_get d ''params'' (JObj []) = JObj p"
        by (auto elim: is_dict.elims)
      with ng True have nm: "dict_get p ''name'' JNull = JStr ''search''"
        and na: "\<not> is_dict (dict_get p ''arguments'' (JObj []))"
        by (auto simp: gets_response_def Let_def split: if_splits)
      from handle_request_search_bad_args [OF True p nm na]
      obtain e where "handle_request rt k (JObj d) = Inl e" by blast
      with loads show ?thesis by (simp add: main_body_raise)
    qed
  qed
qed


theorem response_iff_method_witness:
  \<open>stdout (main_body demo_rt 0 (''{"jsonrpc": "2.0", "id": 1, "method": "ping"}'' @ [CHR 0x0A]) empty_world) = [] \<and>
   stdout (main_body demo_rt 1 (''{"jsonrpc": "2.0", "method": "initialize"}'' @ [CHR 0x0A]) empty_world) =
     [''{"jsonrpc": "2.0", "id": null, "result": {"protocolVersion": "2024-11-05", "capabilities": {"tools": {}}, "serverInfo": {"name": "Antigravity Search", "version": "1.0.0"}}}'' @ [CHR 0x0A]]\<close>
  using response_iff_method [of demo_rt \<open>''{"jsonrpc": "2.0", "id": 1, "method": "ping"}'' @ [CHR 0x0A]\<close>
      "[(''jsonrpc'', JStr ''2.0''), (''id'', JInt 1), (''method'', JStr ''ping'')]" 0 empty_world]
    response_iff_method [of demo_rt \<open>''{"jsonrpc": "2.0", "method": "initialize"}'' @ [CHR 0x0A]\<close>
      "[(''jsonrpc'', JStr ''2.0''), (''method'', JStr ''initialize'')]" 1 empty_world]
  by (simp add: demo_rt_def demo_loads_def gets_response_def dict_get_def empty_world_def
      handle_request_def)

text \<open>
  Claim C2. A message whose method is none of \<open>initialize\<close>,
  \<open>notifications/initialized\<close>, \<open>tools/list\<close>, \<open>tools/call\<close> makes the dispatcher return
  \<^verbatim>\<open>None\<close>, and the loop iteration leaves both streams as they were, whether or not the
  message carries an \<open>id\<close>.
\<close>

theorem unknown_method_no_output:
  assumes "json_loads rt line = Inr (JObj d)"
    and "dict_get d ''method'' JNull \<notin>
           {JStr ''initialize'', JStr ''notifications/initialized'', JStr ''tools/list'',
            JStr ''tools/call''}"
  shows "handle_request rt k (JObj d) = Inr JNull \<and> main_body rt k line w = w"
proof -
  from assms(2) have "handle_request rt k (JObj d) = Inr JNull"
    by (intro handle_request_silent) simp_all
  with assms(1) show ?thesis by (simp add: main_body_none)
qed

theorem unknown_method_no_output_witness:
  \<open>has_id (JObj [(''jsonrpc'', JStr ''2.0''), (''id'', JInt 1), (''method'', JStr ''ping'')]) \<and>
   handle_request demo_rt 5
     (JObj [(''jsonrpc'', JStr ''2.0''), (''id'', JInt 1), (''method'', JStr ''ping'')]) = Inr JNull \<and>
   main_body demo_rt 5 (''{"jsonrpc": "2.0", "id": 1, "method": "ping"}'' @ [CHR 0x0A]) empty_world = empty_world\<close>
  using unknown_method_no_output [of demo_rt
      \<open>''{"jsonrpc": "2.0", "id": 1, "method": "ping"}'' @ [CHR 0x0A]\<close>
      "[(''jsonrpc'', JStr ''2.0''), (''id'', JInt 1), (''method'', JStr ''ping'')]" 5 empty_world]
  by (simp add: demo_rt_def demo_loads_def dict_get_def has_id_def)

lemma no_error_field:
  assumes "handle_request rt k request = Inr (JObj r)" and "map_of r ''error'' = Some e"
  shows "\<exists>d p. request = JObj d \<and> dict_get d ''method'' JNull = JStr ''tools/call'' \<and>
           dict_get d ''params'' (JObj []) = JObj p \<and> dict_get p ''name'' JNull \<noteq> JStr ''search'' \<and>
           e = JObj [(''code'', JInt (- 32601)),
                     (''message'',
                        JStr (''Tool not found: '' @ py_str rt (dict_get p ''name'' JNull)))]"
proof (cases "is_dict request")
  case False
  from handle_request_not_dict [OF False, of rt k] assms(1) show ?thesis by simp
next
  case True
  then obtain d where d: "request = JObj d" by (auto elim: is_dict.elims)
  show ?thesis
  proof (cases "dict_get d ''method'' JNull = JStr ''tools/call''")
    case False
    have "dict_get d ''method'' JNull = JStr ''initialize'' \<or>
          dict_get d ''method'' JNull = JStr ''tools/list'' \<or>
          handle_request rt k (JObj d) = Inr JNull"
      using False handle_request_silent [of d rt k] by blast
    then show ?thesis
      using assms d
      by (auto simp: handle_request_initialize handle_request_tools_list)
  next
    case call: True
    show ?thesis
    proof (cases "is_dict (dict_get d ''params'' (JObj []))")
      case False
      from handle_request_call_bad_params [OF call False, of rt k] assms(1) d
      show ?thesis by auto
    next
      case True
      then obtain p where p: "dict_get d ''params'' (JObj []) = JObj p"
        by (auto elim: is_dict.elims)
      show ?thesis
      proof (cases "dict_get p ''name'' JNull = JStr ''search''")
        case False
        from handle_request_unknown_tool [OF call p False, of rt k] assms d call p False
        show ?thesis by auto
      next
        case nm: True
        show ?thesis
        proof (cases "is_dict (dict_get p ''arguments'' (JObj []))")
          case False
          from handle_request_search_bad_args [OF call p nm False, of rt k] assms(1) d
          show ?thesis by auto
        next
          case True
          then obtain a where a: "dict_get p ''arguments'' (JObj []) = JObj a"
            by (auto elim: is_dict.elims)
          obtain s where s: "search (requests_post rt k) (dict_get a ''query'' JNull) = Inr s"
            using search_returns by blast
          from handle_request_search [OF call p nm a s] assms d
          show ?thesis by auto
        qed
      qed
    qed
  qed
qed

text \<open>
  Claim C3. A \<open>tools/call\<close> message whose \<open>params\<close> is an object (or absent) and whose
  \<open>name\<close> is not \<open>search\<close> gets a Response with an \<open>error\<close> of code \<open>-32601\<close> whose
  message is \<open>Tool not found: \<close> followed by the name as an f-string prints it: the string
  itself for a string name (so the message contains the name), \<open>None\<close> for a missing or
  null name, \<open>True\<close> or \<open>False\<close> for a boolean, the decimal numeral for an integer, the
  float's own text, and for a list or a dict what the runtime prints for it.
  Conversely, whenever the dispatcher returns an envelope with an \<open>error\<close> field, it is
  this one.
\<close>

theorem unknown_tool_error:
  "(dict_get d ''method'' JNull = JStr ''tools/call'' \<and>
    dict_get d ''params'' (JObj []) = JObj p \<and>
    dict_get p ''name'' JNull \<noteq> JStr ''search'' \<longrightarrow>
      handle_request rt k (JObj d) =
        Inr (JObj [(''jsonrpc'', JStr ''2.0''),
                   (''id'', dict_get d ''id'' JNull),
                   (''error'', JObj [
                      (''code'', JInt (- 32601)),
                      (''message'', JStr (''Tool not found: '' @ py_str rt (dict_get p ''name'' JNull)))])]) \<and>
      sublist (py_str rt (dict_get p ''name'' JNull))
        (''Tool not found: '' @ py_str rt (dict_get p ''name'' JNull))) \<and>
   (\<forall>n. dict_get d ''method'' JNull = JStr ''tools/call'' \<and>
    dict_get d ''params'' (JObj []) = JObj p \<and>
    dict_get p ''name'' JNull = JStr n \<and> n \<noteq> ''search'' \<longrightarrow>
      handle_request rt k (JObj d) =
        Inr (JObj [(''jsonrpc'', JStr ''2.0''),
                   (''id'', dict_get d ''id'' JNull),
                   (''error'', JObj [
                      (''code'', JInt (- 32601)),
                      (''message'', JStr (''Tool not found: '' @ n))])]) \<and>
      sublist n (''Tool not found: '' @ n)) \<and>
   (dict_get d ''method'' JNull = JStr ''tools/call'' \<and>
    dict_get d ''params'' (JObj []) = JObj p \<and>
    dict_get p ''name'' JNull = JNull \<longrightarrow>
      handle_request rt k (JObj d) =
        Inr (JObj [(''jsonrpc'', JStr ''2.0''),
                   (''id'', dict_get d ''id'' JNull),
                   (''error'', JObj [
                      (''code'', JInt (- 32601)),
                      (''message'', JStr (''Tool not found: None''))])])) \<and>
   (\<forall>b. dict_get d ''method'' JNull = JStr ''tools/call'' \<and>
    dict_get d ''params'' (JObj []) = JObj p \<and>
    dict_get p ''name'' JNull = JBool b \<longrightarrow>
      handle_request rt k (JObj d) =
        Inr (JObj [(''jsonrpc'', JStr ''2.0''),
                   (''id'', dict_get d ''id'' JNull),
                   (''error'', JObj [
                      (''code'', JInt (- 32601)),
                      (''message'', JStr (''Tool not found: '' @ (if b then ''True'' else ''False'')))])])) \<and>
   (\<forall>i. dict_get d ''method'' JNull = JStr ''tools/call'' \<and>
    dict_get d ''params'' (JObj []) = JObj p \<and>
    dict_get p ''name'' JNull = JInt i \<longrightarrow>
      (\<exists>s. int_of_decimal s = i \<and>
         handle_request rt k (JObj d) =
           Inr (JObj [(''jsonrpc'', JStr ''2.0''),
                      (''id'', dict_get d ''id'' JNull),
                      (''error'', JObj [
                         (''code'', JInt (- 32601)),
                         (''message'', JStr (''Tool not found: '' @ s))])]))) \<and>
   (\<forall>f. dict_get d ''method'' JNull = JStr ''tools/call'' \<and>
    dict_get d ''params'' (JObj []) = JObj p \<and>
    dict_get p ''name'' JNull = JFloat f \<longrightarrow>
      handle_request rt k (JObj d) =
        Inr (JObj [(''jsonrpc'', JStr ''2.0''),
                   (''id'', dict_get d ''id'' JNull),
                   (''error'', JObj [
                      (''code'', JInt (- 32601)),
                      (''message'', JStr (''Tool not found: '' @ f))])])) \<and>
   (\<forall>xs. dict_get d ''method'' JNull = JStr ''tools/call'' \<and>
    dict_get d ''params'' (JObj []) = JObj p \<and>
    dict_get p ''name'' JNull = JArr xs \<longrightarrow>
      handle_request rt k (JObj d) =
        Inr (JObj [(''jsonrpc'', JStr ''2.0''),
                   (''id'', dict_get d ''id'' JNull),
                   (''error'', JObj [
                      (''code'', JInt (- 32601)),
                      (''message'', JStr (''Tool not found: '' @ container_repr rt (JArr xs)))])])) \<and>
   (\<forall>m. dict_get d ''method'' JNull = JStr ''tools/call'' \<and>
    dict_get d ''params'' (JObj []) = JObj p \<and>
    dict_get p ''name'' JNull = JObj m \<longrightarrow>
      handle_request rt k (JObj d) =
        Inr (JObj [(''jsonrpc'', JStr ''2.0''),
                   (''id'', dict_get d ''id'' JNull),
                   (''error'', JObj [
                      (''code'', JInt (- 32601)),
                      (''message'', JStr (''Tool not found: '' @ container_repr rt (JObj m)))])])) \<and>
   (\<forall>r e. handle_request rt k request = Inr (JObj r) \<and> map_of r ''error'' = Some e \<longrightarrow>
      (\<exists>d' p'. request = JObj d' \<and> dict_get d' ''method'' JNull = JStr ''tools/call'' \<and>
         dict_get d' ''params'' (JObj []) = JObj p' \<and>
         dict_get p' ''name'' JNull \<noteq> JStr ''search'' \<and>
         e = JObj [(''code'', JInt (- 32601)),
                   (''message'',
                      JStr (''Tool not found: '' @ py_str rt (dict_get p' ''name'' JNull)))]))"
proof (intro conjI impI allI)
  assume "dict_get d ''method'' JNull = JStr ''tools/call'' \<and>
    dict_get d ''params'' (JObj []) = JObj p \<and>
    dict_get p ''name'' JNull \<noteq> JStr ''search''"
  then show "handle_request rt k (JObj d) =
        Inr (JObj [(''jsonrpc'', JStr ''2.0''),
                   (''id'', dict_get d ''id'' JNull),
                   (''error'', JObj [
                      (''code'', JInt (- 32601)),
                      (''message'', JStr (''Tool not found: '' @ py_str rt (dict_get p ''name'' JNull)))])])"
    by (simp add: handle_request_unknown_tool)
next
  show "sublist (py_str rt (dict_get p ''name'' JNull))
        (''Tool not found: '' @ py_str rt (dict_get p ''name'' JNull))"
    by (rule sublist_append_leftI)
next
  fix n
  assume "dict_get d ''method'' JNull = JStr ''tools/call'' \<and>
    dict_get d ''params'' (JObj []) = JObj p \<and>
    dict_get p ''name'' JNull = JStr n \<and> n \<noteq> ''search''"
  then show "handle_request rt k (JObj d) =
        Inr (JObj [(''jsonrpc'', JStr ''2.0''),
                   (''id'', dict_get d ''id'' JNull),
                   (''error'', JObj [
                      (''code'', JInt (- 32601)),
                      (''message'', JStr (''Tool not found: '' @ n))])])"
    using handle_request_unknown_tool [of d p rt k] by simp
next
  fix n show "sublist n (''Tool not found: '' @ n)"
    by (rule sublist_append_leftI)
next
  assume "dict_get d ''method'' JNull = JStr ''tools/call'' \<and>
    dict_get d ''params'' (JObj []) = JObj p \<and>
    dict_get p ''name'' JNull = JNull"
  then show "handle_request rt k (JObj d) =
        Inr (JObj [(''jsonrpc'', JStr ''2.0''),
                   (''id'', dict_get d ''id'' JNull),
                   (''error'', JObj [
                      (''code'', JInt (- 32601)),
                      (''message'', JStr (''Tool not found: None''))])])"
    using handle_request_unknown_tool [of d p rt k] by simp
next
  fix b
  assume "dict_get d ''method'' JNull = JStr ''tools/call'' \<and>
    dict_get d ''params'' (JObj []) = JObj p \<and>
    dict_get p ''name'' JNull = JBool b"
  then show "handle_request rt k (JObj d) =
        Inr (JObj [(''jsonrpc'', JStr ''2.0''),
                   (''id'', dict_get d ''id'' JNull),
                   (''error'', JObj [
                      (''code'', JInt (- 32601)),
                      (''message'', JStr (''Tool not found: '' @ (if b then ''True'' else ''False'')))])])"
    using handle_request_unknown_tool [of d p rt k] by simp
next
  fix i
  assume "dict_get d ''method'' JNull = JStr ''tools/call'' \<and>
    dict_get d ''params'' (JObj []) = JObj p \<and>
    dict_get p ''name'' JNull = JInt i"
  then have "handle_request rt k (JObj d) =
        Inr (JObj [(''jsonrpc'', JStr ''2.0''),
                   (''id'', dict_get d ''id'' JNull),
                   (''error'', JObj [
                      (''code'', JInt (- 32601)),
                      (''message'', JStr (''Tool not found: '' @ str_int i))])])"
    using handle_request_unknown_tool [of d p rt k] by simp
  then show "\<exists>s. int_of_decimal s = i \<and>
         handle_request rt k (JObj d) =
           Inr (JObj [(''jsonrpc'', JStr ''2.0''),
                      (''id'', dict_get d ''id'' JNull),
                      (''error'', JObj [
                         (''code'', JInt (- 32601)),
                         (''message'', JStr (''Tool not found: '' @ s))])])"
    using str_int_roundtrip [of i] by blast
next
  fix f
  assume "dict_get d ''method'' JNull = JStr ''tools/call'' \<and>
    dict_get d ''params'' (JObj []) = JObj p \<and>
    dict_get p ''name'' JNull = JFloat f"
  then show "handle_request rt k (JObj d) =
        Inr (JObj [(''jsonrpc'', JStr ''2.0''),
                   (''id'', dict_get d ''id'' JNull),
                   (''error'', JObj [
                      (''code'', JInt (- 32601)),
                      (''message'', JStr (''Tool not found: '' @ f))])])"
    using handle_request_unknown_tool [of d p rt k] by simp
next
  fix xs
  assume "dict_get d ''method'' JNull = JStr ''tools/call'' \<and>
    dict_get d ''params'' (JObj []) = JObj p \<and>
    dict_get p ''name'' JNull = JArr xs"
  then show "handle_request rt k (JObj d) =
        Inr (JObj [(''jsonrpc'', JStr ''2.0''),
                   (''id'', dict_get d ''id'' JNull),
                   (''error'', JObj [
                      (''code'', JInt (- 32601)),
                      (''message'', JStr (''Tool not found: '' @ container_repr rt (JArr xs)))])])"
    using handle_request_unknown_tool [of d p rt k] by simp
next
  fix m
  assume "dict_get d ''method'' JNull = JStr ''tools/call'' \<and>
    dict_get d ''params'' (JObj []) = JObj p \<and>
    dict_get p ''name'' JNull = JObj m"
  then show "handle_request rt k (JObj d) =
        Inr (JObj [(''jsonrpc'', JStr ''2.0''),
                   (''id'', dict_get d ''id'' JNull),
                   (''error'', JObj [
                      (''code'', JInt (- 32601)),
                      (''message'', JStr (''Tool not found: '' @ container_repr rt (JObj m)))])])"
    using handle_request_unknown_tool [of d p rt k] by simp
next
  fix r e
  assume "handle_request rt k request = Inr (JObj r) \<and> map_of r ''error'' = Some e"
  then show "\<exists>d' p'. request = JObj d' \<and> dict_get d' ''method'' JNull = JStr ''tools/call'' \<and>
         dict_get d' ''params'' (JObj []) = JObj p' \<and>
         dict_get p' ''name'' JNull \<noteq> JStr ''search'' \<and>
         e = JObj [(''code'', JInt (- 32601)),
                   (''message'',
                      JStr (''Tool not found: '' @ py_str rt (dict_get p' ''name'' JNull)))]"
    using no_error_field by blast
qed

theorem unknown_tool_error_witness:
  "handle_request demo_rt 0
     (JObj [(''jsonrpc'', JStr ''2.0''), (''id'', JInt 3), (''method'', JStr ''tools/call''),
            (''params'', JObj [(''name'', JStr ''frobnicate'')])]) =
     Inr (JObj [(''jsonrpc'', JStr ''2.0''),
                (''id'', JInt 3),
                (''error'', JObj [(''code'', JInt (- 32601)),
                                  (''message'', JStr ''Tool not found: frobnicate'')])]) \<and>
   sublist ''frobnicate'' ''Tool not found: frobnicate'' \<and>
   handle_request demo_rt 0
     (JObj [(''jsonrpc'', JStr ''2.0''), (''id'', JInt 4), (''method'', JStr ''tools/call''),
            (''params'', JObj [(''name'', JStr ''web_fetch''), (''arguments'', JObj [])])]) =
     Inr (JObj [(''jsonrpc'', JStr ''2.0''),
                (''id'', JInt 4),
                (''error'', JObj [(''code'', JInt (- 32601)),
                                  (''message'', JStr ''Tool not found: web_fetch'')])]) \<and>
   handle_request demo_rt 0
     (JObj [(''jsonrpc'', JStr ''2.0''), (''id'', JInt 5), (''method'', JStr ''tools/call'')]) =
     Inr (JObj [(''jsonrpc'', JStr ''2.0''),
                (''id'', JInt 5),
                (''error'', JObj [(''code'', JInt (- 32601)),
                                  (''message'', JStr ''Tool not found: None'')])])"
  using unknown_tool_error [of
      "[(''jsonrpc'', JStr ''2.0''), (''id'', JInt 3), (''method'', JStr ''tools/call''),
        (''params'', JObj [(''name'', JStr ''frobnicate'')])]"
      "[(''name'', JStr ''frobnicate'')]" demo_rt 0
      "JObj [(''jsonrpc'', JStr ''2.0''), (''id'', JInt 3), (''method'', JStr ''tools/call''),
        (''params'', JObj [(''name'', JStr ''frobnicate'')])]"]
    unknown_tool_error [of
      "[(''jsonrpc'', JStr ''2.0''), (''id'', JInt 4), (''method'', JStr ''tools/call''),
        (''params'', JObj [(''name'', JStr ''web_fetch''), (''arguments'', JObj [])])]"
      "[(''name'', JStr ''web_fetch''), (''arguments'', JObj [])]" demo_rt 0 JNull]
    unknown_tool_error [of
      "[(''jsonrpc'', JStr ''2.0''), (''id'', JInt 5), (''method'', JStr ''tools/call'')]"
      "[]" demo_rt 0 JNull]
  by (simp add: dict_get_def)

text \<open>
  Claim C6. When the backend answers a \<open>tools/call\<close> of \<open>search\<close> with a status other
  than 200, the dispatcher returns a result Response (no \<open>error\<close> field) whose single
  text block reads \<open>Error: Proxy returned status <status> - <body>\<close>. The status is
  printed as its decimal numeral: read back as a numeral it gives the status, and for a
  status that is not negative it consists of digits only, with no leading zero. So the
  text contains the status and the body, and for status 500 it contains \<open>500\<close>.
\<close>

theorem non_200_is_result_text:
  assumes "dict_get d ''method'' JNull = JStr ''tools/call''"
    and "dict_get d ''params'' (JObj []) = JObj p"
    and "dict_get p ''name'' JNull = JStr ''search''"
    and "dict_get p ''arguments'' (JObj []) = JObj a"
    and "requests_post rt k PROXY_URL headers (payload (dict_get a ''query'' JNull)) = Inr r"
    and "status_code r \<noteq> 200"
  shows "handle_request rt k (JObj d) =
           Inr (JObj [(''jsonrpc'', JStr ''2.0''),
                      (''id'', dict_get d ''id'' JNull),
                      (''result'', JObj [
                         (''content'', JArr [JObj [
                            (''type'', JStr ''text''),
                            (''text'', JStr (''Error: Proxy returned status ''
                                @ str_int (status_code r) @ '' - '' @ resp_text r))]])])]) \<and>
         sublist (str_int (status_code r))
           (''Error: Proxy returned status '' @ str_int (status_code r) @ '' - '' @ resp_text r) \<and>
         sublist (resp_text r)
           (''Error: Proxy returned status '' @ str_int (status_code r) @ '' - '' @ resp_text r) \<and>
         (status_code r = 500 \<longrightarrow>
            sublist ''500''
              (''Error: Proxy returned status '' @ str_int (status_code r) @ '' - '' @ resp_text r)) \<and>
         int_of_decimal (str_int (status_code r)) = status_code r \<and>
         (0 \<le> status_code r \<longrightarrow> set (str_int (status_code r)) \<subseteq> set ''0123456789'') \<and>
         (0 < status_code r \<longrightarrow> hd (str_int (status_code r)) \<noteq> CHR ''0'') \<and>
         (status_code r = 500 \<longrightarrow>
            handle_request rt k (JObj d) =
              Inr (JObj [(''jsonrpc'', JStr ''2.0''),
                         (''id'', dict_get d ''id'' JNull),
                         (''result'', JObj [
                            (''content'', JArr [JObj [
                               (''type'', JStr ''text''),
                               (''text'', JStr (''Error: Proxy returned status 500 - ''
                                   @ resp_text r))]])])]))"
proof -
  let ?t = "''Error: Proxy returned status '' @ str_int (status_code r) @ '' - '' @ resp_text r"
  from assms(5,6) have "search (requests_post rt k) (dict_get a ''query'' JNull) = Inr ?t"
    by (simp add: search_def search_try_def)
  from handle_request_search [OF assms(1-4) this]
  have resp: "handle_request rt k (JObj d) =
           Inr (JObj [(''jsonrpc'', JStr ''2.0''),
                      (''id'', dict_get d ''id'' JNull),
                      (''result'', JObj [
                         (''content'', JArr [JObj [
                            (''type'', JStr ''text''), (''text'', JStr ?t)]])])])" .
  have code: "sublist (str_int (status_code r)) ?t"
    by (rule sublist_appendI)
  have body: "sublist (resp_text r) ?t"
    unfolding sublist_def
    by (intro exI [of _ "''Error: Proxy returned status '' @ str_int (status_code r) @ '' - ''"]
        exI [of _ "[]"]) simp
  from code have five: "status_code r = 500 \<longrightarrow> sublist ''500'' ?t"
    by (auto simp: str_int_500)
  have readback: "int_of_decimal (str_int (status_code r)) = status_code r"
    by (rule str_int_roundtrip)
  have digits: "0 \<le> status_code r \<longrightarrow> set (str_int (status_code r)) \<subseteq> set ''0123456789''"
    using str_int_digits [of "status_code r"] by blast
  have lead: "0 < status_code r \<longrightarrow> hd (str_int (status_code r)) \<noteq> CHR ''0''"
    using str_int_digits [of "status_code r"] by simp
  from resp have lit: "status_code r = 500 \<longrightarrow>
            handle_request rt k (JObj d) =
              Inr (JObj [(''jsonrpc'', JStr ''2.0''),
                         (''id'', dict_get d ''id'' JNull),
                         (''result'', JObj [
                            (''content'', JArr [JObj [
                               (''type'', JStr ''text''),
                               (''text'', JStr (''Error: Proxy returned status 500 - ''
                                   @ resp_text r))]])])])"
    by (simp add: str_int_500)
  from resp code body five readback digits lead lit show ?thesis by blast
qed

theorem non_200_is_result_text_witness:
  "handle_request demo_rt 1
     (JObj [(''jsonrpc'', JStr ''2.0''), (''id'', JInt 4), (''method'', JStr ''tools/call''),
            (''params'', JObj [(''name'', JStr ''search''),
                               (''arguments'', JObj [(''query'', JStr ''isabelle'')])])]) =
     Inr (JObj [(''jsonrpc'', JStr ''2.0''),
                (''id'', JInt 4),
                (''result'', JObj [
                   (''content'', JArr [JObj [
                      (''type'', JStr ''text''),
                      (''text'',
                         JStr ''Error: Proxy returned status 500 - Internal Server Error'')]])])]) \<and>
   sublist ''500'' ''Error: Proxy returned status 500 - Internal Server Error'' \<and>
   handle_request demo_rt 6
     (JObj [(''jsonrpc'', JStr ''2.0''), (''id'', JInt 7), (''method'', JStr ''tools/call''),
            (''params'', JObj [(''name'', JStr ''search''),
                               (''arguments'', JObj [(''query'', JStr ''isabelle'')])])]) =
     Inr (JObj [(''jsonrpc'', JStr ''2.0''),
                (''id'', JInt 7),
                (''result'', JObj [
                   (''content'', JArr [JObj [
                      (''type'', JStr ''text''),
                      (''text'', JStr ''Error: Proxy returned status 404 - Not Found'')]])])]) \<and>
   int_of_decimal ''404'' = 404"
  using non_200_is_result_text [of
      "[(''jsonrpc'', JStr ''2.0''), (''id'', JInt 4), (''method'', JStr ''tools/call''),
        (''params'', JObj [(''name'', JStr ''search''),
                           (''arguments'', JObj [(''query'', JStr ''isabelle'')])])]"
      "[(''name'', JStr ''search''), (''arguments'', JObj [(''query'', JStr ''isabelle'')])]"
      "[(''query'', JStr ''isabelle'')]" demo_rt 1
      "\<lparr>status_code = 500, resp_text = ''Internal Server Error'',
        resp_json = Inl (JSONDecodeError ''Expecting value: line 1 column 1 (char 0)'')\<rparr>"]
    non_200_is_result_text [of
      "[(''jsonrpc'', JStr ''2.0''), (''id'', JInt 7), (''method'', JStr ''tools/call''),
        (''params'', JObj [(''name'', JStr ''search''),
                           (''arguments'', JObj [(''query'', JStr ''isabelle'')])])]"
      "[(''name'', JStr ''search''), (''arguments'', JObj [(''query'', JStr ''isabelle'')])]"
      "[(''query'', JStr ''isabelle'')]" demo_rt 6
      "\<lparr>status_code = 404, resp_text = ''Not Found'',
        resp_json = Inl (JSONDecodeError ''Expecting value: line 1 column 1 (char 0)'')\<rparr>"]
  by (simp add: dict_get_def demo_rt_def demo_post_def str_int_500 str_int_404)

text \<open>
  Claim C7. \<open>initialize\<close> always succeeds, whatever the \<open>params\<close>: the result is the
  fixed object of protocol version, capabilities and server information, and any two
  \<open>initialize\<close> calls (other parameters, other ids, another moment) have the same
  \<open>result\<close>.
\<close>

theorem initialize_idempotent:
  assumes "dict_get d ''method'' JNull = JStr ''initialize''"
    and "dict_get d' ''method'' JNull = JStr ''initialize''"
  shows "handle_request rt k (JObj d) =
           Inr (JObj [(''jsonrpc'', JStr ''2.0''),
                      (''id'', dict_get d ''id'' JNull),
                      (''result'', JObj [
                         (''protocolVersion'', JStr ''2024-11-05''),
                         (''capabilities'', JObj [(''tools'', JObj [])]),
                         (''serverInfo'', JObj [(''name'', JStr ''Antigravity Search''),
                                                (''version'', JStr ''1.0.0'')])])]) \<and>
         response_field ''result'' (handle_request rt' k' (JObj d')) =
           response_field ''result'' (handle_request rt k (JObj d))"
  using assms by (simp add: handle_request_initialize response_field_def)

theorem initialize_idempotent_witness:
  "handle_request demo_rt 0
     (JObj [(''jsonrpc'', JStr ''2.0''), (''id'', JInt 1), (''method'', JStr ''initialize''),
            (''params'', JObj [(''protocolVersion'', JStr ''1999-01-01'')])]) =
     Inr (JObj [(''jsonrpc'', JStr ''2.0''),
                (''id'', JInt 1),
                (''result'', JObj [
                   (''protocolVersion'', JStr ''2024-11-05''),
                   (''capabilities'', JObj [(''tools'', JObj [])]),
                   (''serverInfo'', JObj [(''name'', JStr ''Antigravity Search''),
                                          (''version'', JStr ''1.0.0'')])])]) \<and>
   response_field ''result'' (handle_request demo_rt 1
     (JObj [(''jsonrpc'', JStr ''2.0''), (''id'', JInt 2), (''method'', JStr ''initialize''),
            (''params'', JArr [])])) =
   response_field ''result'' (handle_request demo_rt 0
     (JObj [(''jsonrpc'', JStr ''2.0''), (''id'', JInt 1), (''method'', JStr ''initialize''),
            (''params'', JObj [(''protocolVersion'', JStr ''1999-01-01'')])]))"
  using initialize_idempotent [of
      "[(''jsonrpc'', JStr ''2.0''), (''id'', JInt 1), (''method'', JStr ''initialize''),
        (''params'', JObj [(''protocolVersion'', JStr ''1999-01-01'')])]"
      "[(''jsonrpc'', JStr ''2.0''), (''id'', JInt 2), (''method'', JStr ''initialize''),
        (''params'', JArr [])]" demo_rt 0 demo_rt 1]
  by (simp add: dict_get_def)

text \<open>
  Claim C8. Every \<open>tools/list\<close> request gets a result whose \<open>tools\<close> is a list of exactly
  one descriptor, named \<open>search\<close>, whose \<open>inputSchema\<close> has the single property \<open>query\<close>
  of type \<open>string\<close> and lists \<open>query\<close> as required; any two \<open>tools/list\<close> calls have the
  same \<open>result\<close>.
\<close>

theorem tools_list_static:
  assumes "dict_get d ''method'' JNull = JStr ''tools/list''"
    and "dict_get d' ''method'' JNull = JStr ''tools/list''"
  shows "handle_request rt k (JObj d) =
           Inr (JObj [(''jsonrpc'', JStr ''2.0''),
                      (''id'', dict_get d ''id'' JNull),
                      (''result'', JObj [
                         (''tools'', JArr [JObj [
                            (''name'', JStr ''search''),
                            (''description'',
                               JStr ''Performs a Google Search using the Antigravity Proxy.''),
                            (''inputSchema'', JObj [
                               (''type'', JStr ''object''),
                               (''properties'', JObj [
                                  (''query'', JObj [(''type'', JStr ''string''),
                                                    (''description'', JStr ''The search query'')])]),
                               (''required'', JArr [JStr ''query''])])]])])]) \<and>
         response_field ''result'' (handle_request rt' k' (JObj d')) =
           response_field ''result'' (handle_request rt k (JObj d))"
  using assms by (simp add: handle_request_tools_list response_field_def)

theorem tools_list_static_witness:
  "response_field ''result'' (handle_request demo_rt 7
     (JObj [(''jsonrpc'', JStr ''2.0''), (''id'', JInt 2), (''method'', JStr ''tools/list'')])) =
     Some (JObj [
       (''tools'', JArr [JObj [
          (''name'', JStr ''search''),
          (''description'', JStr ''Performs a Google Search using the Antigravity Proxy.''),
          (''inputSchema'', JObj [
             (''type'', JStr ''object''),
             (''properties'', JObj [
                (''query'', JObj [(''type'', JStr ''string''),
                                  (''description'', JStr ''The search query'')])]),
             (''required'', JArr [JStr ''query''])])]])])"
  using tools_list_static [of
      "[(''jsonrpc'', JStr ''2.0''), (''id'', JInt 9), (''method'', JStr ''tools/list''),
        (''params'', JObj [(''cursor'', JNull)])]"
      "[(''jsonrpc'', JStr ''2.0''), (''id'', JInt 2), (''method'', JStr ''tools/list'')]"
      demo_rt 0 demo_rt 7]
  by (simp add: dict_get_def response_field_def)

text \<open>
  Claim C9. The dispatcher does not check the arguments against the schema: a
  \<open>tools/call\<close> of \<open>search\<close> whose arguments have no \<open>query\<close> key, or that has no
  \<open>arguments\<close> at all, calls \<^verbatim>\<open>search\<close> with \<^verbatim>\<open>None\<close> and returns a result Response
  with the text that call gave.
\<close>

theorem search_without_query:
  assumes "dict_get d ''method'' JNull = JStr ''tools/call''"
    and "dict_get d ''params'' (JObj []) = JObj p"
    and "dict_get p ''name'' JNull = JStr ''search''"
    and "dict_get p ''arguments'' (JObj []) = JObj a"
    and "map_of a ''query'' = None"
  shows "\<exists>s. search (requests_post rt k) JNull = Inr s \<and>
           handle_request rt k (JObj d) =
             Inr (JObj [(''jsonrpc'', JStr ''2.0''),
                        (''id'', dict_get d ''id'' JNull),
                        (''result'', JObj [
                           (''content'', JArr [JObj [(''type'', JStr ''text''),
                                                     (''text'', JStr s)]])])])"
proof -
  obtain s where s: "search (requests_post rt k) JNull = Inr s"
    using search_returns by blast
  from assms(5) have "dict_get a ''query'' JNull = JNull"
    by (simp add: dict_get_def)
  with s have "search (requests_post rt k) (dict_get a ''query'' JNull) = Inr s"
    by simp
  from handle_request_search [OF assms(1-4) this] s show ?thesis by blast
qed

theorem search_without_query_witness:
  "handle_request demo_rt 0
     (JObj [(''jsonrpc'', JStr ''2.0''), (''id'', JInt 5), (''method'', JStr ''tools/call''),
            (''params'', JObj [(''name'', JStr ''search'')])]) =
     Inr (JObj [(''jsonrpc'', JStr ''2.0''),
                (''id'', JInt 5),
                (''result'', JObj [
                   (''content'', JArr [JObj [(''type'', JStr ''text''),
                                             (''text'', JStr ''hello world'')]])])]) \<and>
   handle_request demo_rt 2
     (JObj [(''jsonrpc'', JStr ''2.0''), (''id'', JInt 6), (''method'', JStr ''tools/call''),
            (''params'', JObj [(''name'', JStr ''search''),
                               (''arguments'', JObj [(''q'', JStr ''typo'')])])]) =
     Inr (JObj [(''jsonrpc'', JStr ''2.0''),
                (''id'', JInt 6),
                (''result'', JObj [
                   (''content'', JArr [JObj [(''type'', JStr ''text''),
                      (''text'', JStr ''Request failed: Connection refused'')]])])])"
  using search_without_query [of
      "[(''jsonrpc'', JStr ''2.0''), (''id'', JInt 5), (''method'', JStr ''tools/call''),
        (''params'', JObj [(''name'', JStr ''search'')])]"
      "[(''name'', JStr ''search'')]" "[]" demo_rt 0]
    search_without_query [of
      "[(''jsonrpc'', JStr ''2.0''), (''id'', JInt 6), (''method'', JStr ''tools/call''),
        (''params'', JObj [(''name'', JStr ''search''),
                           (''arguments'', JObj [(''q'', JStr ''typo'')])])]"
      "[(''name'', JStr ''search''), (''arguments'', JObj [(''q'', JStr ''typo'')])]"
      "[(''q'', JStr ''typo'')]" demo_rt 2]
  by (simp add: dict_get_def demo_rt_def demo_post_def search_def search_try_def)

text \<open>
  Claim C10. A line that decodes to a JSON value other than an object writes nothing to
  the output stream: the \<^verbatim>\<open>AttributeError\<close> of the first \<^verbatim>\<open>request.get\<close> is caught,
  its traceback goes to the error stream, and the loop goes on. If the line is the last
  one the run ends with only the traceback added; if one more line follows, the run ends
  in the state that the next iteration makes of that line, starting from the state with
  the traceback; and in general the remaining lines are handled one by one from there.
\<close>

theorem non_object_line_logged:
  assumes "line \<noteq> []" and "json_loads rt line = Inr v" and "\<not> is_dict v"
  shows "main_body rt k line w =
           w\<lparr>stderr := stderr w @ [format_exc rt (AttributeError
               ([CHR 0x27] @ type_name v @ [CHR 0x27] @ '' object has no attribute ''
                  @ [CHR 0x27] @ ''get'' @ [CHR 0x27]))]\<rparr> \<and>
         stdout (main_body rt k line w) = stdout w \<and>
         main_loop rt k (w\<lparr>stdin := line # rest\<rparr>) =
           main_loop rt (Suc k)
             (w\<lparr>stdin := rest,
                stderr := stderr w @ [format_exc rt (AttributeError
               ([CHR 0x27] @ type_name v @ [CHR 0x27] @ '' object has no attribute ''
                  @ [CHR 0x27] @ ''get'' @ [CHR 0x27]))]\<rparr>) \<and>
         main_loop rt k (w\<lparr>stdin := [line]\<rparr>) =
           w\<lparr>stdin := [], stderr := stderr w @ [format_exc rt (AttributeError
               ([CHR 0x27] @ type_name v @ [CHR 0x27] @ '' object has no attribute ''
                  @ [CHR 0x27] @ ''get'' @ [CHR 0x27]))]\<rparr> \<and>
         (line2 \<noteq> [] \<longrightarrow>
            main_loop rt k (w\<lparr>stdin := [line, line2]\<rparr>) =
              main_body rt (Suc k) line2
                (w\<lparr>stdin := [], stderr := stderr w @ [format_exc rt (AttributeError
               ([CHR 0x27] @ type_name v @ [CHR 0x27] @ '' object has no attribute ''
                  @ [CHR 0x27] @ ''get'' @ [CHR 0x27]))]\<rparr>)) \<and>
         ((\<forall>l \<in> set rest. l \<noteq> []) \<longrightarrow>
            main_loop rt k (w\<lparr>stdin := line # rest\<rparr>) =
              process_lines rt (Suc k) rest
                (w\<lparr>stdin := [], stderr := stderr w @ [format_exc rt (AttributeError
               ([CHR 0x27] @ type_name v @ [CHR 0x27] @ '' object has no attribute ''
                  @ [CHR 0x27] @ ''get'' @ [CHR 0x27]))]\<rparr>))"
proof -
  let ?log = "format_exc rt (AttributeError
               ([CHR 0x27] @ type_name v @ [CHR 0x27] @ '' object has no attribute ''
                  @ [CHR 0x27] @ ''get'' @ [CHR 0x27]))"
  have body: "main_body rt k line w' = w'\<lparr>stderr := stderr w' @ [?log]\<rparr>" for w'
    using assms(2) handle_request_not_dict [OF assms(3), of rt k]
    by (simp add: main_body_def)
  have step: "main_loop rt k (w\<lparr>stdin := line # ls\<rparr>) =
      main_loop rt (Suc k) (w\<lparr>stdin := ls, stderr := stderr w @ [?log]\<rparr>)" for ls
    using assms(1) body [of "w\<lparr>stdin := ls\<rparr>"] by (simp add: main_loop_line)
  have one: "main_loop rt k (w\<lparr>stdin := [line]\<rparr>) =
      w\<lparr>stdin := [], stderr := stderr w @ [?log]\<rparr>"
    using step [of "[]"] main_loop_eof [of rt "Suc k" "w\<lparr>stderr := stderr w @ [?log]\<rparr>"]
    by (simp add: world_update_swap)
  have all: "(\<forall>l \<in> set ls. l \<noteq> []) \<longrightarrow>
      main_loop rt k (w\<lparr>stdin := line # ls\<rparr>) =
        process_lines rt (Suc k) ls (w\<lparr>stdin := [], stderr := stderr w @ [?log]\<rparr>)" for ls
  proof
    assume ne: "\<forall>l \<in> set ls. l \<noteq> []"
    from main_loop_process_lines [OF ne, of rt "Suc k" "w\<lparr>stderr := stderr w @ [?log]\<rparr>"]
    show "main_loop rt k (w\<lparr>stdin := line # ls\<rparr>) =
        process_lines rt (Suc k) ls (w\<lparr>stdin := [], stderr := stderr w @ [?log]\<rparr>)"
      using step [of ls] by (simp add: world_update_swap)
  qed
  have two: "line2 \<noteq> [] \<longrightarrow>
      main_loop rt k (w\<lparr>stdin := [line, line2]\<rparr>) =
        main_body rt (Suc k) line2 (w\<lparr>stdin := [], stderr := stderr w @ [?log]\<rparr>)"
    using all [of "[line2]"] by simp
  from body [of w] step [of rest] one two all [of rest] show ?thesis by simp
qed

theorem non_object_line_logged_witness:
  \<open>main_loop demo_rt 0
     \<lparr>stdin = [''[1, 2]'' @ [CHR 0x0A],
               ''{"jsonrpc": "2.0", "id": 2, "method": "tools/list"}'' @ [CHR 0x0A]],
      stdout = [], stderr = []\<rparr> =
   \<lparr>stdin = [],
    stdout = [''{"jsonrpc": "2.0", "id": 2, "result": {"tools": [{"name": "search", "description": "Performs a Google Search using the Antigravity Proxy.", "inputSchema": {"type": "object", "properties": {"query": {"type": "string", "description": "The search query"}}, "required": ["query"]}}]}}'' @ [CHR 0x0A]],
    stderr = [''Traceback (most recent call last): '' @ [CHR 0x27] @ ''list'' @ [CHR 0x27]
                @ '' object has no attribute '' @ [CHR 0x27] @ ''get'' @ [CHR 0x27]]\<rparr>\<close>
  using non_object_line_logged [of \<open>''[1, 2]'' @ [CHR 0x0A]\<close> demo_rt "JArr [JInt 1, JInt 2]"
      0 "\<lparr>stdin = [], stdout = [], stderr = []\<rparr>"
      \<open>[''{"jsonrpc": "2.0", "id": 2, "method": "tools/list"}'' @ [CHR 0x0A]]\<close>
      \<open>''{"jsonrpc": "2.0", "id": 2, "method": "tools/list"}'' @ [CHR 0x0A]\<close>,
      THEN conjunct2, THEN conjunct2, THEN conjunct2, THEN conjunct2, THEN conjunct1]
  by (simp add: demo_rt_def demo_loads_def main_body_def handle_request_def dict_get_def
      str_int_2)

end
